theory Spec2Isabelle
  imports Complex_Main
begin

section \<open>Cost accounting: \<open>GeminiHandler.calculateCost\<close>\<close>

text \<open>
  A number is a rational. \<open>calculateCost_locals\<close> and \<open>calculateCost\<close> compute in exact
  arithmetic; \<open>calculateCost_locals_rounded\<close> and \<open>calculateCost_rounded\<close> below are the
  same statements with every arithmetic result rounded, which for \<open>round53\<close> is the
  arithmetic of JavaScript's doubles. The special values \<open>NaN\<close> and \<open>Infinity\<close> are outside
  both. An optional field (\<open>price?: number\<close>) is an \<open>option\<close>, with \<open>None\<close> for
  \<open>undefined\<close>.
\<close>

text \<open>
  The type \<open>ModelInfo\<close> is imported by the handler from the shared types package; the
  records below hold the fields \<open>calculateCost\<close> reads. A tier's price fields carry the
  prefix \<open>tier\<close> because record fields share one name space.
\<close>

record Tier =
  contextWindow :: rat
  tierInputPrice :: "rat option"
  tierOutputPrice :: "rat option"
  tierCacheReadsPrice :: "rat option"

record ModelInfo =
  inputPrice :: "rat option"
  outputPrice :: "rat option"
  cacheReadsPrice :: "rat option"
  tiers :: "Tier list option"

text \<open>The values a JavaScript expression of this method can have.\<close>

datatype jsval = is_JUndefined: JUndefined | is_JNumber: JNumber rat | is_JObject: JObject "(string \<times> jsval) list"

text \<open>\<open>!p\<close> on an optional number: true for \<open>undefined\<close> and for \<open>0\<close>.\<close>

definition falsy :: "rat option \<Rightarrow> bool" where
  "falsy p = (case p of None \<Rightarrow> True | Some x \<Rightarrow> x = 0)"

text \<open>\<open>a ?? b\<close>: the left operand unless it is \<open>undefined\<close>.\<close>

definition nullish :: "'a option \<Rightarrow> 'a \<Rightarrow> 'a" where
  "nullish a b = (case a of None \<Rightarrow> b | Some x \<Rightarrow> x)"

text \<open>\<open>info.tiers.find((tier) => inputTokens <= tier.contextWindow)\<close>, under \<open>if (info.tiers)\<close>.\<close>

definition findTier :: "ModelInfo \<Rightarrow> rat \<Rightarrow> Tier option" where
  "findTier info inputTokens =
     (case tiers info of
        None \<Rightarrow> None
      | Some ts \<Rightarrow> find (\<lambda>tier. inputTokens \<le> contextWindow tier) ts)"

text \<open>
  The three \<open>let\<close> variables after the tier block, given their initial values (the base
  prices, known to be truthy at that point).
\<close>

definition tierAdjust :: "ModelInfo \<Rightarrow> rat \<Rightarrow> rat \<times> rat \<times> rat \<Rightarrow> rat \<times> rat \<times> rat" where
  "tierAdjust info inputTokens base =
     (case base of (inputPrice0, outputPrice0, cacheReadsPrice0) \<Rightarrow>
        (case findTier info inputTokens of
           None \<Rightarrow> (inputPrice0, outputPrice0, cacheReadsPrice0)
         | Some tier \<Rightarrow>
             (nullish (tierInputPrice tier) inputPrice0,
              nullish (tierOutputPrice tier) outputPrice0,
              nullish (tierCacheReadsPrice tier) cacheReadsPrice0)))"

text \<open>One entry \<open>{ price, tokens, cost }\<close> of the local \<open>trace\<close> object.\<close>

definition traceEntry :: "rat \<Rightarrow> rat \<Rightarrow> rat \<Rightarrow> jsval" where
  "traceEntry p n c = JObject [(''price'', JNumber p), (''tokens'', JNumber n), (''cost'', JNumber c)]"

text \<open>
  The body of \<open>calculateCost\<close>: \<open>None\<close> when the guard returns \<open>undefined\<close>, otherwise
  the final values of the locals \<open>totalCost\<close> and \<open>trace\<close>. The fourth argument is
  optional with default \<open>0\<close>.
\<close>

definition calculateCost_locals ::
  "ModelInfo \<Rightarrow> rat \<Rightarrow> rat \<Rightarrow> rat option \<Rightarrow> (rat \<times> jsval) option" where
  "calculateCost_locals info inputTokens outputTokens cacheReadTokensArg =
     (let cacheReadTokens = nullish cacheReadTokensArg 0 in
      if falsy (inputPrice info) \<or> falsy (outputPrice info) \<or> falsy (cacheReadsPrice info)
      then None
      else
        (case tierAdjust info inputTokens
                (the (inputPrice info), the (outputPrice info), the (cacheReadsPrice info)) of
           (inputPrice1, outputPrice1, cacheReadsPrice1) \<Rightarrow>
             let uncachedInputTokens = inputTokens - cacheReadTokens;
                 cacheReadCost =
                   (if cacheReadTokens > 0 then cacheReadsPrice1 * (cacheReadTokens / 1000000) else 0);
                 inputTokensCost = inputPrice1 * (uncachedInputTokens / 1000000);
                 outputTokensCost = outputPrice1 * (outputTokens / 1000000);
                 totalCost = inputTokensCost + outputTokensCost + cacheReadCost;
                 trace =
                   [(''input'', traceEntry inputPrice1 uncachedInputTokens inputTokensCost),
                    (''output'', traceEntry outputPrice1 outputTokens outputTokensCost)]
                   @ (if cacheReadTokens > 0
                      then [(''cacheRead'', traceEntry cacheReadsPrice1 cacheReadTokens cacheReadCost)]
                      else [])
             in Some (totalCost, JObject trace)))"

text \<open>What the method returns: \<open>undefined\<close> or \<open>totalCost\<close>.\<close>

definition calculateCost :: "ModelInfo \<Rightarrow> rat \<Rightarrow> rat \<Rightarrow> rat option \<Rightarrow> jsval" where
  "calculateCost info inputTokens outputTokens cacheReadTokensArg =
     (case calculateCost_locals info inputTokens outputTokens cacheReadTokensArg of
        None \<Rightarrow> JUndefined
      | Some (totalCost, trace) \<Rightarrow> JNumber totalCost)"

subsection \<open>The same computation in double arithmetic\<close>

text \<open>
  A JavaScript number is a binary64 double, and each of \<open>+\<close>, \<open>-\<close>, \<open>*\<close> and \<open>/\<close> returns
  the exact result rounded to the nearest double, ties to even. \<open>round53\<close> is that rounding
  on the rationals for results in the normal range: 53 significant bits, no overflow,
  no subnormals, no \<open>NaN\<close>. \<open>floorLog2 a\<close> is the exponent \<open>e\<close> with
  \<open>2 ^ e \<le> a < 2 ^ (e + 1)\<close> for positive \<open>a\<close>.
\<close>

function floorLog2 :: "rat \<Rightarrow> int" where
  "floorLog2 a =
     (if a \<le> 0 then 0
      else if a \<ge> 2 then floorLog2 (a / 2) + 1
      else if a < 1 then floorLog2 (a * 2) - 1
      else 0)"
  by pat_completeness auto
termination
proof (relation "measure (\<lambda>a. if a \<ge> 1 then nat \<lfloor>a\<rfloor> else nat \<lceil>1 / a\<rceil>)")
  show "wf (measure (\<lambda>a::rat. if a \<ge> 1 then nat \<lfloor>a\<rfloor> else nat \<lceil>1 / a\<rceil>))"
    by simp
next
  fix a :: rat
  assume "\<not> a \<le> 0" "2 \<le> a"
  then have "\<lfloor>a / 2\<rfloor> < \<lfloor>a\<rfloor>" "1 \<le> a / 2" "0 < \<lfloor>a\<rfloor>"
    by (simp_all add: floor_less_iff) linarith+
  with \<open>2 \<le> a\<close> show "(a / 2, a) \<in> measure (\<lambda>a. if a \<ge> 1 then nat \<lfloor>a\<rfloor> else nat \<lceil>1 / a\<rceil>)"
    by simp
next
  fix a :: rat
  assume a: "\<not> a \<le> 0" "\<not> 2 \<le> a" "a < 1"
  then have c: "2 \<le> \<lceil>1 / a\<rceil>"
    by (simp add: le_ceiling_iff)
  show "(a * 2, a) \<in> measure (\<lambda>a. if a \<ge> 1 then nat \<lfloor>a\<rfloor> else nat \<lceil>1 / a\<rceil>)"
  proof (cases "a * 2 \<ge> 1")
    case True
    with a have "\<lfloor>a * 2\<rfloor> = 1" by (simp add: floor_eq_iff)
    with True a c show ?thesis by simp
  next
    case False
    have "1 / (a * 2) \<le> of_int \<lceil>1 / a\<rceil> / 2"
      using a by (simp add: field_simps)
    also have "\<dots> \<le> of_int (\<lceil>1 / a\<rceil> - 1)"
      using c by simp
    finally have "1 / (a * 2) \<le> of_int (\<lceil>1 / a\<rceil> - 1)" .
    then have "\<lceil>1 / (a * 2)\<rceil> \<le> \<lceil>1 / a\<rceil> - 1"
      by (rule ceiling_le)
    with False a c show ?thesis by simp
  qed
qed

declare floorLog2.simps [simp del]

text \<open>\<open>a * 2 ^ e\<close> for an integer \<open>e\<close> of either sign.\<close>

definition scale2 :: "rat \<Rightarrow> int \<Rightarrow> rat" where
  "scale2 a e = (if e \<ge> 0 then a * 2 ^ nat e else a / 2 ^ nat (- e))"

text \<open>The nearest integer, a tie going to the even one.\<close>

definition roundHalfEven :: "rat \<Rightarrow> int" where
  "roundHalfEven m =
     (let f = \<lfloor>m\<rfloor>; r = m - of_int f in
      if r < 1 / 2 then f else if r > 1 / 2 then f + 1 else if even f then f else f + 1)"

definition round53 :: "rat \<Rightarrow> rat" where
  "round53 x =
     (if x = 0 then 0
      else let e = floorLog2 \<bar>x\<bar> - 52 in
           sgn x * scale2 (of_int (roundHalfEven (scale2 \<bar>x\<bar> (- e)))) e)"

text \<open>
  The body of \<open>calculateCost\<close> once more, statement by statement, with the result of every
  arithmetic operation passed through \<open>fl\<close>: the identity gives \<open>calculateCost_locals\<close>,
  \<open>round53\<close> gives the doubles the code computes. Comparisons are exact.
\<close>

definition calculateCost_locals_rounded ::
  "(rat \<Rightarrow> rat) \<Rightarrow> ModelInfo \<Rightarrow> rat \<Rightarrow> rat \<Rightarrow> rat option \<Rightarrow> (rat \<times> jsval) option" where
  "calculateCost_locals_rounded fl info inputTokens outputTokens cacheReadTokensArg =
     (let cacheReadTokens = nullish cacheReadTokensArg 0 in
      if falsy (inputPrice info) \<or> falsy (outputPrice info) \<or> falsy (cacheReadsPrice info)
      then None
      else
        (case tierAdjust info inputTokens
                (the (inputPrice info), the (outputPrice info), the (cacheReadsPrice info)) of
           (inputPrice1, outputPrice1, cacheReadsPrice1) \<Rightarrow>
             let uncachedInputTokens = fl (inputTokens - cacheReadTokens);
                 cacheReadCost =
                   (if cacheReadTokens > 0
                    then fl (cacheReadsPrice1 * fl (cacheReadTokens / 1000000)) else 0);
                 inputTokensCost = fl (inputPrice1 * fl (uncachedInputTokens / 1000000));
                 outputTokensCost = fl (outputPrice1 * fl (outputTokens / 1000000));
                 totalCost = fl (fl (inputTokensCost + outputTokensCost) + cacheReadCost);
                 trace =
                   [(''input'', traceEntry inputPrice1 uncachedInputTokens inputTokensCost),
                    (''output'', traceEntry outputPrice1 outputTokens outputTokensCost)]
                   @ (if cacheReadTokens > 0
                      then [(''cacheRead'', traceEntry cacheReadsPrice1 cacheReadTokens cacheReadCost)]
                      else [])
             in Some (totalCost, JObject trace)))"

definition calculateCost_rounded ::
  "(rat \<Rightarrow> rat) \<Rightarrow> ModelInfo \<Rightarrow> rat \<Rightarrow> rat \<Rightarrow> rat option \<Rightarrow> jsval" where
  "calculateCost_rounded fl info inputTokens outputTokens cacheReadTokensArg =
     (case calculateCost_locals_rounded fl info inputTokens outputTokens cacheReadTokensArg of
        None \<Rightarrow> JUndefined
      | Some (totalCost, trace) \<Rightarrow> JNumber totalCost)"

section \<open>Image generation: \<open>GeminiHandler.generateImage\<close>\<close>

text \<open>
  Strings are \<open>string\<close>; an optional string is an \<open>option\<close>. The types of the provider's
  client library (\<open>GoogleGenAI\<close>, \<open>GenerateContentParameters\<close>, the response with its
  candidates, content, parts and inline data) are imported by the handler; the records
  below hold the fields \<open>generateImage\<close> writes and reads, every optional field as an
  \<open>option\<close>. The field \<open>text\<close> of a part is \<open>partText\<close> here and the field \<open>data\<close> of
  inline data is \<open>blobData\<close>.
\<close>

subsection \<open>JavaScript string operations\<close>

text \<open>Truthiness of an optional string: \<open>undefined\<close> and \<open>""\<close> are falsy.\<close>

definition truthy :: "string option \<Rightarrow> bool" where
  "truthy s = (case s of None \<Rightarrow> False | Some v \<Rightarrow> v \<noteq> [])"

definition startsWith :: "string \<Rightarrow> string \<Rightarrow> bool" where
  "startsWith s p = (take (length p) s = p)"

text \<open>
  \<open>s.replace(pat, rep)\<close> with a string pattern: only the first occurrence is replaced.
  The replacements used here (\<open>""\<close> and \<open>"jpg"\<close>) hold no \<open>$\<close> pattern.
\<close>

fun replace :: "string \<Rightarrow> string \<Rightarrow> string \<Rightarrow> string" where
  "replace [] pat rep = (if pat = [] then rep else [])"
| "replace (c # cs) pat rep =
     (if startsWith (c # cs) pat then rep @ drop (length pat) (c # cs)
      else c # replace cs pat rep)"

text \<open>An optional string inside a template literal: \<open>undefined\<close> prints as its name.\<close>

definition template :: "string option \<Rightarrow> string" where
  "template s = (case s of None \<Rightarrow> ''undefined'' | Some v \<Rightarrow> v)"

text \<open>
  The characters \<open>.\<close> does not match. Of the four line terminators of JavaScript, line
  feed and carriage return are characters of \<open>string\<close>; U+2028 and U+2029 are not.
\<close>

definition lineTerminator :: "char \<Rightarrow> bool" where
  "lineTerminator c = (c = CHR 0x0A \<or> c = CHR 0x0D)"

text \<open>
  \<open>inputImage.match(/^data:image\/(png|jpeg|jpg);base64,(.+)$/)\<close>: the alternatives are
  tried in order, each followed by \<open>;base64,\<close> and a non-empty rest without line
  terminators that reaches the end of the string. The result holds the two groups.
\<close>

fun matchAlternatives :: "string list \<Rightarrow> string \<Rightarrow> (string \<times> string) option" where
  "matchAlternatives [] s = None"
| "matchAlternatives (alt # alts) s =
     (let rest = drop (length (alt @ '';base64,'')) s in
      if startsWith s (alt @ '';base64,'') \<and> rest \<noteq> [] \<and> list_all (\<lambda>c. \<not> lineTerminator c) rest
      then Some (alt, rest)
      else matchAlternatives alts s)"

definition matchInputImage :: "string \<Rightarrow> (string \<times> string) option" where
  "matchInputImage s =
     (if startsWith s ''data:image/''
      then matchAlternatives [''png'', ''jpeg'', ''jpg''] (drop (length ''data:image/'') s)
      else None)"

subsection \<open>Requests, responses and results\<close>

record Blob =
  mimeType :: "string option"
  blobData :: "string option"

record Part =
  partText :: "string option"
  inlineData :: "Blob option"

record Content =
  role :: "string option"
  parts :: "Part list option"

record Candidate =
  content :: "Content option"

record GenerateContentResponse =
  candidates :: "Candidate list option"

record HttpOptions =
  baseUrl :: string

record GenerateContentConfig =
  httpOptions :: "HttpOptions option"
  temperature :: rat

record GenerateContentParameters =
  model :: string
  contents :: "Content list"
  config :: GenerateContentConfig

text \<open>A client: made from an API key, or for Vertex with a project and a location.\<close>

datatype GoogleGenAI = ApiKeyClient string | VertexClient string string

record ApiHandlerOptions =
  vertexProjectId :: "string option"
  googleGeminiBaseUrl :: "string option"

record GeminiHandler =
  options :: ApiHandlerOptions
  client :: GoogleGenAI

text \<open>What a \<open>catch\<close> can receive: an \<open>Error\<close> with its message, or any other value.\<close>

datatype thrown = ErrorInstance string | OtherValue

text \<open>
  The provider call \<open>client.models.generateContent(params)\<close>, awaited: it throws or
  resolves to a response. A run of \<open>generateImage\<close> also returns the calls it made.
\<close>

type_synonym transport = "GoogleGenAI \<Rightarrow> GenerateContentParameters \<Rightarrow> thrown + GenerateContentResponse"

type_synonym calls = "(GoogleGenAI \<times> GenerateContentParameters) list"

record ImageGenerationResult =
  success :: bool
  imageData :: "string option"
  imageFormat :: "string option"
  error :: "string option"

text \<open>The object literal \<open>{ success: false, error }\<close>.\<close>

definition failure :: "string \<Rightarrow> ImageGenerationResult" where
  "failure msg = \<lparr>success = False, imageData = None, imageFormat = None, error = Some msg\<rparr>"

subsection \<open>The method\<close>

text \<open>The temporary client for a given key, unless the handler is a Vertex one.\<close>

definition selectClient :: "GeminiHandler \<Rightarrow> string option \<Rightarrow> GoogleGenAI" where
  "selectClient this apiKey =
     (case apiKey of
        None \<Rightarrow> client this
      | Some key \<Rightarrow>
          if key \<noteq> [] \<and> \<not> truthy (vertexProjectId (options this))
          then ApiKeyClient key
          else client this)"

text \<open>
  The array \<open>contents\<close>; \<open>None\<close> is the early return on an input image that does not
  match.
\<close>

definition buildContents :: "string \<Rightarrow> string option \<Rightarrow> Content list option" where
  "buildContents prompt inputImage =
     (case (if truthy inputImage then inputImage else None) of
        Some dataUrl \<Rightarrow>
          (case matchInputImage dataUrl of
             None \<Rightarrow> None
           | Some (group1, group2) \<Rightarrow>
               let mimeType1 = (if group1 = ''jpg'' then ''image/jpeg'' else ''image/'' @ group1);
                   base64Data = group2
               in Some [\<lparr>role = Some ''user'',
                         parts = Some [\<lparr>partText = Some prompt, inlineData = None\<rparr>,
                                       \<lparr>partText = None,
                                        inlineData = Some \<lparr>mimeType = Some mimeType1,
                                                            blobData = Some base64Data\<rparr>\<rparr>]\<rparr>])
      | None \<Rightarrow>
          Some [\<lparr>role = Some ''user'',
                 parts = Some [\<lparr>partText = Some prompt, inlineData = None\<rparr>]\<rparr>])"

definition buildParams :: "GeminiHandler \<Rightarrow> string \<Rightarrow> Content list \<Rightarrow> GenerateContentParameters" where
  "buildParams this modelId cs =
     \<lparr>model = modelId,
      contents = cs,
      config = \<lparr>httpOptions =
                   (case googleGeminiBaseUrl (options this) of
                      None \<Rightarrow> None
                    | Some url \<Rightarrow> if url \<noteq> [] then Some \<lparr>baseUrl = url\<rparr> else None),
                 temperature = 1\<rparr>\<rparr>"

text \<open>
  The loop over the parts, on the pair of locals \<open>(imageData, imageFormat)\<close>; it stops at
  the first part with inline data whose MIME type starts with \<open>image/\<close>.
\<close>

fun partsLoop :: "Part list \<Rightarrow> string option \<times> string \<Rightarrow> string option \<times> string" where
  "partsLoop [] st = st"
| "partsLoop (part # rest) st =
     (case inlineData part of
        None \<Rightarrow> partsLoop rest st
      | Some blob \<Rightarrow>
          (case mimeType blob of
             None \<Rightarrow> partsLoop rest st
           | Some mt \<Rightarrow>
               if startsWith mt ''image/''
               then (Some (''data:'' @ mt @ '';base64,'' @ template (blobData blob)),
                     replace (replace mt ''image/'' '''') ''jpeg'' ''jpg'')
               else partsLoop rest st))"

text \<open>From the response to the result: the statements after the provider call.\<close>

definition extractImage :: "GenerateContentResponse \<Rightarrow> ImageGenerationResult" where
  "extractImage result =
     (case candidates result of
        None \<Rightarrow> failure ''No candidates returned in the response''
      | Some [] \<Rightarrow> failure ''No candidates returned in the response''
      | Some (candidate # _) \<Rightarrow>
          (case content candidate of
             None \<Rightarrow> failure ''No content parts in the response''
           | Some c \<Rightarrow>
               (case parts c of
                  None \<Rightarrow> failure ''No content parts in the response''
                | Some ps \<Rightarrow>
                    (case partsLoop ps (None, ''png'') of
                       (imageData1, imageFormat1) \<Rightarrow>
                         if \<not> truthy imageData1
                         then failure ''No image data found in the response''
                         else \<lparr>success = True, imageData = imageData1,
                                imageFormat = Some imageFormat1, error = None\<rparr>))))"

text \<open>The \<open>try\<close> block: what it returns or throws, and the provider calls it made.\<close>

definition generateImage_try ::
  "GeminiHandler \<Rightarrow> transport \<Rightarrow> string \<Rightarrow> string \<Rightarrow> string option \<Rightarrow> string option
   \<Rightarrow> (thrown + ImageGenerationResult) \<times> calls" where
  "generateImage_try this generateContent prompt modelId apiKey inputImage =
     (case buildContents prompt inputImage of
        None \<Rightarrow> (Inr (failure ''Invalid input image format. Expected base64 data URL.''), [])
      | Some cs \<Rightarrow>
          (case generateContent (selectClient this apiKey) (buildParams this modelId cs) of
             Inl e \<Rightarrow> (Inl e, [(selectClient this apiKey, buildParams this modelId cs)])
           | Inr result \<Rightarrow>
               (Inr (extractImage result),
                [(selectClient this apiKey, buildParams this modelId cs)])))"

text \<open>The \<open>catch\<close> block.\<close>

definition errorMessage :: "thrown \<Rightarrow> string" where
  "errorMessage e = (case e of ErrorInstance m \<Rightarrow> m | OtherValue \<Rightarrow> ''Unknown error occurred'')"

definition generateImage ::
  "GeminiHandler \<Rightarrow> transport \<Rightarrow> string \<Rightarrow> string \<Rightarrow> string option \<Rightarrow> string option
   \<Rightarrow> ImageGenerationResult \<times> calls" where
  "generateImage this generateContent prompt modelId apiKey inputImage =
     (case generateImage_try this generateContent prompt modelId apiKey inputImage of
        (Inl e, cs) \<Rightarrow> (failure (''Failed to generate image: '' @ errorMessage e), cs)
      | (Inr r, cs) \<Rightarrow> (r, cs))"

section \<open>The cost formula as the specification writes it\<close>

text \<open>
  \<open>cost = inputPrice \<times> effectiveInputTokens / 1e6 + outputPrice \<times> outputTokens / 1e6
  + (cacheReadTokens > 0 ? cacheReadsPrice \<times> cacheReadTokens / 1e6 : 0)\<close> with
  \<open>effectiveInputTokens = inputTokens - cacheReadTokens\<close>; the code's own arithmetic is in
  \<open>calculateCost_locals\<close>.
\<close>

definition spec_cost :: "rat \<Rightarrow> rat \<Rightarrow> rat \<Rightarrow> rat \<Rightarrow> rat \<Rightarrow> rat \<Rightarrow> rat" where
  "spec_cost pIn pOut pCache inputTokens outputTokens cacheReadTokens =
     pIn * (inputTokens - cacheReadTokens) / 1000000
     + pOut * outputTokens / 1000000
     + (if cacheReadTokens > 0 then pCache * cacheReadTokens / 1000000 else 0)"

section \<open>The parts that carry an image\<close>


section \<open>A data URL as the specification describes it\<close>





section \<open>Concrete models and responses\<close>

definition paidModel :: ModelInfo where
  "paidModel = \<lparr>inputPrice = Some 2, outputPrice = Some 10, cacheReadsPrice = Some 1, tiers = None\<rparr>"

definition freeInputModel :: ModelInfo where
  "freeInputModel = \<lparr>inputPrice = Some 0, outputPrice = Some 10, cacheReadsPrice = Some 1, tiers = None\<rparr>"

definition noCachePriceModel :: ModelInfo where
  "noCachePriceModel = \<lparr>inputPrice = Some 2, outputPrice = Some 10, cacheReadsPrice = None, tiers = None\<rparr>"

definition exampleTiers :: "Tier list" where
  "exampleTiers =
     [\<lparr>contextWindow = 128000, tierInputPrice = Some 1, tierOutputPrice = None,
        tierCacheReadsPrice = None\<rparr>,
      \<lparr>contextWindow = 1000000, tierInputPrice = Some (1 / 2), tierOutputPrice = None,
        tierCacheReadsPrice = None\<rparr>]"

definition zeroTier :: Tier where
  "zeroTier = \<lparr>contextWindow = 1000000, tierInputPrice = Some 0, tierOutputPrice = Some 0,
     tierCacheReadsPrice = Some 0\<rparr>"

definition tieredModel :: ModelInfo where
  "tieredModel = \<lparr>inputPrice = Some 2, outputPrice = Some 10, cacheReadsPrice = Some 1,
     tiers = Some exampleTiers\<rparr>"

definition zeroTierModel :: ModelInfo where
  "zeroTierModel = \<lparr>inputPrice = Some 2, outputPrice = Some 10, cacheReadsPrice = Some 1,
     tiers = Some [zeroTier]\<rparr>"

definition exampleHandler :: GeminiHandler where
  "exampleHandler =
     \<lparr>options = \<lparr>vertexProjectId = None, googleGeminiBaseUrl = None\<rparr>,
      client = ApiKeyClient ''not-provided''\<rparr>"


definition pngPart :: Part where
  "pngPart =
     \<lparr>partText = None,
      inlineData = Some \<lparr>mimeType = Some ''image/png'', blobData = Some ''iVBORw0KGgo=''\<rparr>\<rparr>"


definition responseWith :: "Part list \<Rightarrow> GenerateContentResponse" where
  "responseWith ps =
     \<lparr>candidates = Some [\<lparr>content = Some \<lparr>role = Some ''model'', parts = Some ps\<rparr>\<rparr>]\<rparr>"

definition stubReturning :: "GenerateContentResponse \<Rightarrow> transport" where
  "stubReturning response = (\<lambda>cl params. Inr response)"

definition stubThrowing :: "thrown \<Rightarrow> transport" where
  "stubThrowing e = (\<lambda>cl params. Inl e)"

definition textRequest :: GenerateContentParameters where
  "textRequest =
     \<lparr>model = ''gemini-2.5-flash-image-preview'',
      contents = [\<lparr>role = Some ''user'',
                   parts = Some [\<lparr>partText = Some ''a red kite'', inlineData = None\<rparr>]\<rparr>],
      config = \<lparr>httpOptions = None, temperature = 1\<rparr>\<rparr>"



definition threeTenOneModel :: ModelInfo where
  "threeTenOneModel = \<lparr>inputPrice = Some 3, outputPrice = Some 10, cacheReadsPrice = Some 1, tiers = None\<rparr>"

definition tieredFreeInputModel :: ModelInfo where
  "tieredFreeInputModel = \<lparr>inputPrice = Some 0, outputPrice = Some 10, cacheReadsPrice = Some 1,
     tiers = Some exampleTiers\<rparr>"

definition tieredNoInputPriceModel :: ModelInfo where
  "tieredNoInputPriceModel = \<lparr>inputPrice = None, outputPrice = Some 10, cacheReadsPrice = Some 1,
     tiers = Some exampleTiers\<rparr>"



section \<open>Lemmas about the cost computation\<close>

lemma falsy_simps: "falsy None" "falsy (Some x) = (x = 0)"
  by (simp_all add: falsy_def)

lemma locals_unavailable:
  "falsy (inputPrice info) \<or> falsy (outputPrice info) \<or> falsy (cacheReadsPrice info)
   \<Longrightarrow> calculateCost_locals info i out c = None"
  by (simp add: calculateCost_locals_def Let_def)

lemma locals_available:
  assumes "inputPrice info = Some bi" "bi \<noteq> 0"
      and "outputPrice info = Some bo" "bo \<noteq> 0"
      and "cacheReadsPrice info = Some bc" "bc \<noteq> 0"
      and "tierAdjust info i (bi, bo, bc) = (p1, p2, p3)"
  shows "calculateCost_locals info i out c =
     Some (p1 * ((i - nullish c 0) / 1000000) + p2 * (out / 1000000)
             + (if nullish c 0 > 0 then p3 * (nullish c 0 / 1000000) else 0),
           JObject
             ([(''input'', traceEntry p1 (i - nullish c 0) (p1 * ((i - nullish c 0) / 1000000))),
               (''output'', traceEntry p2 out (p2 * (out / 1000000)))]
              @ (if nullish c 0 > 0
                 then [(''cacheRead'', traceEntry p3 (nullish c 0) (p3 * (nullish c 0 / 1000000)))]
                 else [])))"
  using assms by (simp add: calculateCost_locals_def Let_def falsy_simps)

lemma cost_available:
  assumes "inputPrice info = Some bi" "bi \<noteq> 0"
      and "outputPrice info = Some bo" "bo \<noteq> 0"
      and "cacheReadsPrice info = Some bc" "bc \<noteq> 0"
      and "tierAdjust info i (bi, bo, bc) = (p1, p2, p3)"
  shows "calculateCost info i out c = JNumber (spec_cost p1 p2 p3 i out (nullish c 0))"
  using locals_available [OF assms, of out c]
  by (simp add: calculateCost_def spec_cost_def)

lemma cost_unavailable:
  "falsy (inputPrice info) \<or> falsy (outputPrice info) \<or> falsy (cacheReadsPrice info)
   \<Longrightarrow> calculateCost info i out c = JUndefined"
  by (simp add: calculateCost_def locals_unavailable)

lemma find_first:
  "\<forall>u \<in> set pre. \<not> P u \<Longrightarrow> P t \<Longrightarrow> find P (pre @ t # post) = Some t"
  by (induction pre) auto

lemma tierAdjust_found:
  "findTier info i = Some tier \<Longrightarrow>
   tierAdjust info i (bi, bo, bc) =
     (nullish (tierInputPrice tier) bi, nullish (tierOutputPrice tier) bo,
      nullish (tierCacheReadsPrice tier) bc)"
  by (simp add: tierAdjust_def)

lemma tierAdjust_none: "findTier info i = None \<Longrightarrow> tierAdjust info i base = base"
  by (simp add: tierAdjust_def split: prod.splits)

lemma nullish_simps: "nullish None b = b" "nullish (Some a) b = a"
  by (simp_all add: nullish_def)

lemma paidModel_simps:
  "inputPrice paidModel = Some 2" "outputPrice paidModel = Some 10"
  "cacheReadsPrice paidModel = Some 1" "tiers paidModel = None"
  by (simp_all add: paidModel_def)

lemma tieredModel_simps:
  "inputPrice tieredModel = Some 2" "outputPrice tieredModel = Some 10"
  "cacheReadsPrice tieredModel = Some 1" "tiers tieredModel = Some exampleTiers"
  by (simp_all add: tieredModel_def)

lemma zeroTierModel_simps:
  "inputPrice zeroTierModel = Some 2" "outputPrice zeroTierModel = Some 10"
  "cacheReadsPrice zeroTierModel = Some 1" "tiers zeroTierModel = Some [zeroTier]"
  by (simp_all add: zeroTierModel_def)

lemma floor_rat_numeral: "\<lfloor>numeral a / numeral b :: rat\<rfloor> = numeral a div numeral b"
  by (metis floor_divide_of_int_eq of_int_numeral)

lemmas round53_eval = round53_def scale2_def roundHalfEven_def Let_def floor_rat_numeral floorLog2.simps

lemma scale2_add: "scale2 (scale2 a e) d = scale2 a (e + d)"
proof -
  have p: "scale2 a e = a * (2::rat) powi e" for a e
    by (auto simp: scale2_def power_int_def field_simps)
  show ?thesis
    by (simp add: p power_int_add)
qed

lemma scale2_powi: "scale2 a e = a * (2::rat) powi e"
  by (auto simp: scale2_def power_int_def field_simps)

lemma floorLog2_bounds:
  "a > 0 \<Longrightarrow> 2 powi floorLog2 a \<le> a \<and> a < 2 powi (floorLog2 a + 1)"
proof (induction a rule: floorLog2.induct)
  case (1 a)
  show ?case
  proof (cases "a \<ge> 2")
    case True
    with 1 have "2 powi floorLog2 (a / 2) \<le> a / 2 \<and> a / 2 < 2 powi (floorLog2 (a / 2) + 1)"
      by simp
    moreover from True 1 have "floorLog2 a = floorLog2 (a / 2) + 1"
      by (subst floorLog2.simps) simp
    ultimately show ?thesis
      by (simp add: power_int_add field_simps)
  next
    case False
    show ?thesis
    proof (cases "a < 1")
      case True
      define k where "k = floorLog2 (a * 2)"
      from True False 1 have ih: "2 powi k \<le> a * 2 \<and> a * 2 < 2 powi (k + 1)"
        by (simp add: k_def)
      from True False 1 have "floorLog2 a = k - 1"
        by (subst floorLog2.simps) (simp add: k_def)
      moreover have "(2::rat) powi (k - 1) = 2 powi k / 2" "(2::rat) powi (k + 1) = 2 powi k * 2"
        by (simp_all add: power_int_diff power_int_add)
      ultimately show ?thesis
        using ih by simp
    next
      case b: False
      with False 1 have "floorLog2 a = 0"
        by (subst floorLog2.simps) simp
      with False b show ?thesis by simp
    qed
  qed
qed

lemma roundHalfEven_near: "\<bar>of_int (roundHalfEven m) - m\<bar> \<le> 1 / 2"
  unfolding roundHalfEven_def Let_def
  by (auto simp: abs_if) linarith+

lemma round53_relative_error:
  assumes "x \<noteq> 0"
  shows "\<bar>round53 x - x\<bar> \<le> \<bar>x\<bar> / 2 ^ 53"
proof -
  define e where "e = floorLog2 \<bar>x\<bar> - 52"
  define m where "m = \<bar>x\<bar> * 2 powi (- e)"
  define n where "n = roundHalfEven m"
  have r: "round53 x = sgn x * (of_int n * 2 powi e)"
    using assms by (simp add: round53_def Let_def e_def m_def n_def scale2_powi)
  have ax: "\<bar>x\<bar> = m * 2 powi e"
    by (simp add: m_def power_int_minus)
  from assms floorLog2_bounds [of "\<bar>x\<bar>"] have "2 powi (e + 52) \<le> \<bar>x\<bar>"
    by (simp add: e_def)
  then have m52: "2 ^ 52 \<le> m"
    by (simp add: m_def power_int_add power_int_minus field_simps)
  have "round53 x - x = sgn x * (of_int n * 2 powi e) - sgn x * \<bar>x\<bar>"
    by (simp add: r sgn_mult_abs)
  also have "\<dots> = sgn x * ((of_int n - m) * 2 powi e)"
    by (simp add: ax algebra_simps)
  finally have "\<bar>round53 x - x\<bar> = \<bar>sgn x * ((of_int n - m) * 2 powi e)\<bar>"
    by simp
  also have "\<dots> = \<bar>of_int n - m\<bar> * 2 powi e"
    using assms by (simp add: abs_mult abs_sgn_eq)
  also have "\<dots> \<le> (1 / 2) * 2 powi e"
    using roundHalfEven_near [of m] by (intro mult_right_mono) (simp_all add: n_def)
  also have "\<dots> \<le> (m / 2 ^ 53) * 2 powi e"
    using m52 by (intro mult_right_mono) (simp_all add: field_simps)
  also have "\<dots> = \<bar>x\<bar> / 2 ^ 53"
    by (simp add: m_def power_int_minus field_simps)
  finally show ?thesis .
qed

lemma round53_examples:
  "round53 0 = 0" "round53 1 = 1" "round53 2 = 2" "round53 5 = 5" "round53 8 = 8" "round53 7 = 7"
  "round53 (1 / 2) = 1 / 2"
  "round53 100000 = 100000" "round53 300000 = 300000" "round53 1000000 = 1000000"
  "round53 (1 / 10) = 3602879701896397 / 2 ^ 55"
  "round53 (3 / 10) = 5404319552844595 / 2 ^ 54"
  "round53 (3 * (3602879701896397 / 2 ^ 55)) = 5404319552844596 / 2 ^ 54"
  by (simp_all add: round53_eval)

lemma locals_rounded_exact:
  "calculateCost_locals_rounded (\<lambda>x. x) info i out c = calculateCost_locals info i out c"
  by (simp add: calculateCost_locals_rounded_def calculateCost_locals_def)

lemma cost_rounded_exact:
  "calculateCost_rounded (\<lambda>x. x) info i out c = calculateCost info i out c"
  by (simp add: calculateCost_rounded_def calculateCost_def locals_rounded_exact)

lemma locals_rounded_available:
  assumes "inputPrice info = Some bi" "bi \<noteq> 0"
      and "outputPrice info = Some bo" "bo \<noteq> 0"
      and "cacheReadsPrice info = Some bc" "bc \<noteq> 0"
      and "tierAdjust info i (bi, bo, bc) = (pIn, pOut, pCache)"
  shows "calculateCost_locals_rounded fl info i out c =
     Some (fl (fl (fl (pIn * fl (fl (i - nullish c 0) / 1000000)) + fl (pOut * fl (out / 1000000)))
               + (if nullish c 0 > 0 then fl (pCache * fl (nullish c 0 / 1000000)) else 0)),
           JObject
             ([(''input'', traceEntry pIn (fl (i - nullish c 0))
                  (fl (pIn * fl (fl (i - nullish c 0) / 1000000)))),
               (''output'', traceEntry pOut out (fl (pOut * fl (out / 1000000))))]
              @ (if nullish c 0 > 0
                 then [(''cacheRead'', traceEntry pCache (nullish c 0)
                          (fl (pCache * fl (nullish c 0 / 1000000))))]
                 else [])))"
  using assms by (simp add: calculateCost_locals_rounded_def Let_def falsy_simps)

lemma threeTenOneModel_simps:
  "inputPrice threeTenOneModel = Some 3" "outputPrice threeTenOneModel = Some 10"
  "cacheReadsPrice threeTenOneModel = Some 1" "tiers threeTenOneModel = None"
  by (simp_all add: threeTenOneModel_def)

lemma double_examples:
  "calculateCost_locals_rounded round53 paidModel 2000000 500000 (Some 1000000) =
       Some (8, JObject [(''input'', traceEntry 2 1000000 2), (''output'', traceEntry 10 500000 5),
                         (''cacheRead'', traceEntry 1 1000000 1)])"
  "calculateCost_rounded round53 threeTenOneModel 100000 0 None = JNumber (5404319552844596 / 2 ^ 54)"
proof -
  have t: "tierAdjust paidModel 2000000 (2, 10, 1) = (2, 10, 1)"
    "tierAdjust threeTenOneModel 100000 (3, 10, 1) = (3, 10, 1)"
    by (simp_all add: tierAdjust_none findTier_def paidModel_simps threeTenOneModel_simps)
  from locals_rounded_available [OF paidModel_simps(1) _ paidModel_simps(2) _ paidModel_simps(3) _ t(1),
        of round53 500000 "Some 1000000"]
  show "calculateCost_locals_rounded round53 paidModel 2000000 500000 (Some 1000000) =
       Some (8, JObject [(''input'', traceEntry 2 1000000 2), (''output'', traceEntry 10 500000 5),
                         (''cacheRead'', traceEntry 1 1000000 1)])"
    by (simp add: nullish_simps round53_eval)
  from locals_rounded_available [OF threeTenOneModel_simps(1) _ threeTenOneModel_simps(2) _
        threeTenOneModel_simps(3) _ t(2), of round53 0 None]
  show "calculateCost_rounded round53 threeTenOneModel 100000 0 None = JNumber (5404319552844596 / 2 ^ 54)"
    by (simp add: calculateCost_rounded_def nullish_simps round53_eval)
qed

section \<open>Claims about \<open>calculateCost\<close>\<close>

text \<open>
  Claim C1, as the code has it. For a model whose three base prices are present and non-zero,
  \<open>calculateCost\<close> returns a bare number, the total cost: the sum of the input, output
  and cache-read sub-costs at the prices left by the tier step. The per-category breakdown
  (price, token count and sub-cost for input, for output and, when \<open>cacheReadTokens > 0\<close>,
  for cache-read) is the final value of the local \<open>trace\<close>, which is built and not returned:
  on no input is the result an object.
\<close>

theorem calculateCost_returns_total:
  "(inputPrice info = Some bi \<and> bi \<noteq> 0 \<and> outputPrice info = Some bo \<and> bo \<noteq> 0
      \<and> cacheReadsPrice info = Some bc \<and> bc \<noteq> 0
      \<and> tierAdjust info inputTokens (bi, bo, bc) = (pIn, pOut, pCache)
      \<and> n = nullish cacheReadTokens 0
    \<longrightarrow> calculateCost info inputTokens outputTokens cacheReadTokens =
          JNumber (pIn * ((inputTokens - n) / 1000000) + pOut * (outputTokens / 1000000)
                   + (if n > 0 then pCache * (n / 1000000) else 0))
        \<and> map_option snd (calculateCost_locals info inputTokens outputTokens cacheReadTokens) =
          Some (JObject
            ([(''input'', traceEntry pIn (inputTokens - n) (pIn * ((inputTokens - n) / 1000000))),
              (''output'', traceEntry pOut outputTokens (pOut * (outputTokens / 1000000)))]
             @ (if n > 0 then [(''cacheRead'', traceEntry pCache n (pCache * (n / 1000000)))] else []))))
   \<and> \<not> is_JObject (calculateCost info inputTokens outputTokens cacheReadTokens)"
proof (intro conjI impI)
  assume a: "inputPrice info = Some bi \<and> bi \<noteq> 0 \<and> outputPrice info = Some bo \<and> bo \<noteq> 0
      \<and> cacheReadsPrice info = Some bc \<and> bc \<noteq> 0
      \<and> tierAdjust info inputTokens (bi, bo, bc) = (pIn, pOut, pCache)
      \<and> n = nullish cacheReadTokens 0"
  then have l: "calculateCost_locals info inputTokens outputTokens cacheReadTokens =
     Some (pIn * ((inputTokens - n) / 1000000) + pOut * (outputTokens / 1000000)
             + (if n > 0 then pCache * (n / 1000000) else 0),
           JObject
             ([(''input'', traceEntry pIn (inputTokens - n) (pIn * ((inputTokens - n) / 1000000))),
               (''output'', traceEntry pOut outputTokens (pOut * (outputTokens / 1000000)))]
              @ (if n > 0 then [(''cacheRead'', traceEntry pCache n (pCache * (n / 1000000)))] else [])))"
    by (simp add: locals_available)
  then show "calculateCost info inputTokens outputTokens cacheReadTokens =
          JNumber (pIn * ((inputTokens - n) / 1000000) + pOut * (outputTokens / 1000000)
                   + (if n > 0 then pCache * (n / 1000000) else 0))"
    by (simp add: calculateCost_def)
  from l show "map_option snd (calculateCost_locals info inputTokens outputTokens cacheReadTokens) =
          Some (JObject
            ([(''input'', traceEntry pIn (inputTokens - n) (pIn * ((inputTokens - n) / 1000000))),
              (''output'', traceEntry pOut outputTokens (pOut * (outputTokens / 1000000)))]
             @ (if n > 0 then [(''cacheRead'', traceEntry pCache n (pCache * (n / 1000000)))] else [])))"
    by simp
next
  show "\<not> is_JObject (calculateCost info inputTokens outputTokens cacheReadTokens)"
    by (simp add: calculateCost_def split: option.splits prod.splits)
qed

theorem calculateCost_returns_total_witness:
  "inputPrice paidModel = Some 2 \<and> outputPrice paidModel = Some 10
   \<and> cacheReadsPrice paidModel = Some 1
   \<and> calculateCost paidModel 2000000 500000 (Some 1000000) = JNumber 8
   \<and> map_option snd (calculateCost_locals paidModel 2000000 500000 (Some 1000000)) =
       Some (JObject [(''input'', traceEntry 2 1000000 2), (''output'', traceEntry 10 500000 5),
                      (''cacheRead'', traceEntry 1 1000000 1)])"
proof -
  have t: "tierAdjust paidModel 2000000 (2, 10, 1) = (2, 10, 1)"
    by (simp add: tierAdjust_none findTier_def paidModel_simps)
  have n: "(1000000::rat) = nullish (Some 1000000) 0" by (simp add: nullish_simps)
  from calculateCost_returns_total
         [where info = paidModel and bi = 2 and bo = 10 and bc = 1 and inputTokens = 2000000
            and pIn = 2 and pOut = 10 and pCache = 1 and n = 1000000 and outputTokens = 500000
            and cacheReadTokens = "Some 1000000"]
       paidModel_simps t n
  show ?thesis by simp
qed

theorem calculateCost_breakdown_counterexample:
  "calculateCost paidModel 2000000 500000 (Some 1000000) = JNumber 8
   \<and> \<not> is_JObject (calculateCost paidModel 2000000 500000 (Some 1000000))
   \<and> inputPrice freeInputModel = Some 0
   \<and> calculateCost freeInputModel 2000000 500000 (Some 1000000) = JUndefined"
  by (simp add: calculateCost_def calculateCost_locals_def Let_def falsy_simps nullish_simps
        tierAdjust_def findTier_def paidModel_def freeInputModel_def)

text \<open>
  Claim C6, as the code has it. For a model whose three base prices are present and non-zero
  and whose selected tier (if any) defines no price, \<open>calculateCost\<close> returns
  \<open>inputPrice \<times> ((inputTokens - cacheReadTokens) / 1e6) + outputPrice \<times> (outputTokens / 1e6)\<close>
  plus \<open>cacheReadsPrice \<times> (cacheReadTokens / 1e6)\<close> when \<open>cacheReadTokens > 0\<close>: each token
  count is divided by \<open>1e6\<close> before the multiplication and every operation is rounded to a
  double. In exact arithmetic this is the formula of the specification; in double arithmetic
  it can differ from it. With prices 2, 10 and 1 and token counts 2,000,000,
  500,000 and 1,000,000 the input cost is 2, the output cost is 5, the cache-read cost is 1
  and the total is 8, in doubles too.
\<close>

theorem calculateCost_formula:
  "(inputPrice info = Some bi \<and> bi \<noteq> 0 \<and> outputPrice info = Some bo \<and> bo \<noteq> 0
      \<and> cacheReadsPrice info = Some bc \<and> bc \<noteq> 0
      \<and> (case findTier info inputTokens of
            None \<Rightarrow> True
          | Some tier \<Rightarrow> tierInputPrice tier = None \<and> tierOutputPrice tier = None
                         \<and> tierCacheReadsPrice tier = None)
      \<and> n = nullish cacheReadTokens 0
    \<longrightarrow> calculateCost_rounded fl info inputTokens outputTokens cacheReadTokens =
          JNumber (fl (fl (fl (bi * fl (fl (inputTokens - n) / 1000000))
                           + fl (bo * fl (outputTokens / 1000000)))
                       + (if n > 0 then fl (bc * fl (n / 1000000)) else 0)))
        \<and> calculateCost_rounded (\<lambda>x. x) info inputTokens outputTokens cacheReadTokens =
          JNumber (spec_cost bi bo bc inputTokens outputTokens n)
        \<and> calculateCost info inputTokens outputTokens cacheReadTokens =
          JNumber (spec_cost bi bo bc inputTokens outputTokens n))
   \<and> calculateCost_locals_rounded round53 paidModel 2000000 500000 (Some 1000000) =
       Some (8, JObject [(''input'', traceEntry 2 1000000 2), (''output'', traceEntry 10 500000 5),
                         (''cacheRead'', traceEntry 1 1000000 1)])
   \<and> calculateCost_rounded round53 paidModel 2000000 500000 (Some 1000000) = JNumber 8"
proof (intro conjI impI)
  assume a: "inputPrice info = Some bi \<and> bi \<noteq> 0 \<and> outputPrice info = Some bo \<and> bo \<noteq> 0
      \<and> cacheReadsPrice info = Some bc \<and> bc \<noteq> 0
      \<and> (case findTier info inputTokens of
            None \<Rightarrow> True
          | Some tier \<Rightarrow> tierInputPrice tier = None \<and> tierOutputPrice tier = None
                         \<and> tierCacheReadsPrice tier = None)
      \<and> n = nullish cacheReadTokens 0"
  then have t: "tierAdjust info inputTokens (bi, bo, bc) = (bi, bo, bc)"
    by (auto simp: tierAdjust_def nullish_simps split: option.splits)
  from a have p: "inputPrice info = Some bi" "bi \<noteq> 0" "outputPrice info = Some bo" "bo \<noteq> 0"
    "cacheReadsPrice info = Some bc" "bc \<noteq> 0" and n: "n = nullish cacheReadTokens 0"
    by simp_all
  from locals_rounded_available [OF p t, of fl outputTokens cacheReadTokens]
  show "calculateCost_rounded fl info inputTokens outputTokens cacheReadTokens =
          JNumber (fl (fl (fl (bi * fl (fl (inputTokens - n) / 1000000))
                           + fl (bo * fl (outputTokens / 1000000)))
                       + (if n > 0 then fl (bc * fl (n / 1000000)) else 0)))"
    by (simp add: calculateCost_rounded_def n)
  from cost_available [OF p t, of outputTokens cacheReadTokens]
  show e: "calculateCost info inputTokens outputTokens cacheReadTokens =
          JNumber (spec_cost bi bo bc inputTokens outputTokens n)"
    by (simp add: n)
  then show "calculateCost_rounded (\<lambda>x. x) info inputTokens outputTokens cacheReadTokens =
          JNumber (spec_cost bi bo bc inputTokens outputTokens n)"
    by (simp add: cost_rounded_exact)
next
  show l: "calculateCost_locals_rounded round53 paidModel 2000000 500000 (Some 1000000) =
       Some (8, JObject [(''input'', traceEntry 2 1000000 2), (''output'', traceEntry 10 500000 5),
                         (''cacheRead'', traceEntry 1 1000000 1)])"
    by (rule double_examples)
  then show "calculateCost_rounded round53 paidModel 2000000 500000 (Some 1000000) = JNumber 8"
    by (simp add: calculateCost_rounded_def)
qed

theorem calculateCost_formula_witness:
  "inputPrice paidModel = Some 2 \<and> outputPrice paidModel = Some 10
   \<and> cacheReadsPrice paidModel = Some 1 \<and> findTier paidModel 2000000 = None
   \<and> calculateCost_rounded round53 paidModel 2000000 500000 (Some 1000000) = JNumber 8
   \<and> calculateCost paidModel 2000000 500000 (Some 1000000)
       = JNumber (spec_cost 2 10 1 2000000 500000 1000000)
   \<and> spec_cost 2 10 1 2000000 500000 1000000 = 8"
proof -
  note th = calculateCost_formula
         [where info = paidModel and bi = 2 and bo = 10 and bc = 1 and inputTokens = 2000000
            and outputTokens = 500000 and cacheReadTokens = "Some 1000000" and n = 1000000
            and fl = round53]
  have f: "findTier paidModel 2000000 = None"
    by (simp add: findTier_def paidModel_simps)
  then have h: "inputPrice paidModel = Some 2 \<and> (2::rat) \<noteq> 0 \<and> outputPrice paidModel = Some 10
      \<and> (10::rat) \<noteq> 0 \<and> cacheReadsPrice paidModel = Some 1 \<and> (1::rat) \<noteq> 0
      \<and> (case findTier paidModel 2000000 of
            None \<Rightarrow> True
          | Some tier \<Rightarrow> tierInputPrice tier = None \<and> tierOutputPrice tier = None
                         \<and> tierCacheReadsPrice tier = None)
      \<and> (1000000::rat) = nullish (Some 1000000) 0"
    by (simp add: paidModel_simps nullish_simps)
  note c = th [THEN conjunct1, THEN mp, OF h, THEN conjunct2, THEN conjunct2]
    and d = th [THEN conjunct2, THEN conjunct2]
  have v: "spec_cost 2 10 1 2000000 500000 1000000 = 8"
    by (simp add: spec_cost_def)
  from c d f v show ?thesis
    by (simp add: paidModel_simps)
qed

theorem calculateCost_formula_counterexample:
  "inputPrice freeInputModel = Some 0 \<and> outputPrice freeInputModel = Some 10
   \<and> cacheReadsPrice freeInputModel = Some 1 \<and> tiers freeInputModel = None
   \<and> calculateCost_rounded round53 freeInputModel 2000000 500000 (Some 1000000) = JUndefined
   \<and> inputPrice threeTenOneModel = Some 3 \<and> outputPrice threeTenOneModel = Some 10
   \<and> cacheReadsPrice threeTenOneModel = Some 1 \<and> tiers threeTenOneModel = None
   \<and> calculateCost_rounded round53 threeTenOneModel 100000 0 None
       = JNumber (5404319552844596 / 2 ^ 54)
   \<and> round53 (round53 (3 * 100000) / 1000000) = 5404319552844595 / 2 ^ 54
   \<and> spec_cost 3 10 1 100000 0 0 = 3 / 10
   \<and> round53 (3 / 10) = 5404319552844595 / 2 ^ 54
   \<and> (5404319552844596 / 2 ^ 54 :: rat) \<noteq> 3 / 10
   \<and> (5404319552844596 / 2 ^ 54 :: rat) \<noteq> 5404319552844595 / 2 ^ 54"
proof -
  have a: "inputPrice freeInputModel = Some 0" "outputPrice freeInputModel = Some 10"
    "cacheReadsPrice freeInputModel = Some 1" "tiers freeInputModel = None"
    by (simp_all add: freeInputModel_def)
  have b: "calculateCost_rounded round53 freeInputModel 2000000 500000 (Some 1000000) = JUndefined"
    by (simp add: calculateCost_rounded_def calculateCost_locals_rounded_def Let_def falsy_simps a)
  have c: "round53 (round53 (3 * 100000) / 1000000) = 5404319552844595 / 2 ^ 54"
    "round53 (3 / 10) = 5404319552844595 / 2 ^ 54"
    by (simp_all add: round53_eval)
  have d: "spec_cost 3 10 1 100000 0 0 = 3 / 10"
    by (simp add: spec_cost_def)
  have e: "(5404319552844596 / 2 ^ 54 :: rat) \<noteq> 3 / 10"
    "(5404319552844596 / 2 ^ 54 :: rat) \<noteq> 5404319552844595 / 2 ^ 54"
    by simp_all
  show ?thesis
    by (intro conjI) (fact a b c d e double_examples(2) threeTenOneModel_simps)+
qed

text \<open>
  Claim C7, as the code has it. When all three base prices are present and non-zero and the
  model defines tiers, the tier used is the first one in listed order whose \<open>contextWindow\<close>
  is at least \<open>inputTokens\<close>; each price that tier defines replaces the base price and each
  price it leaves undefined falls back to the base price. With tiers
  \<open>[{contextWindow: 128000, inputPrice: 1}, {contextWindow: 1000000, inputPrice: 0.5}]\<close> and
  \<open>inputTokens = 500000\<close> the input price used is 0.5.
\<close>

theorem calculateCost_tier_selection:
  "(inputPrice info = Some bi \<and> bi \<noteq> 0 \<and> outputPrice info = Some bo \<and> bo \<noteq> 0
      \<and> cacheReadsPrice info = Some bc \<and> bc \<noteq> 0
      \<and> tiers info = Some (earlier @ tier # later)
      \<and> (\<forall>u \<in> set earlier. contextWindow u < inputTokens)
      \<and> inputTokens \<le> contextWindow tier
    \<longrightarrow> findTier info inputTokens = Some tier
        \<and> calculateCost info inputTokens outputTokens cacheReadTokens =
            JNumber (spec_cost
              (case tierInputPrice tier of Some p \<Rightarrow> p | None \<Rightarrow> bi)
              (case tierOutputPrice tier of Some p \<Rightarrow> p | None \<Rightarrow> bo)
              (case tierCacheReadsPrice tier of Some p \<Rightarrow> p | None \<Rightarrow> bc)
              inputTokens outputTokens (nullish cacheReadTokens 0)))
   \<and> (inputPrice info = Some bi \<and> bi \<noteq> 0 \<and> outputPrice info = Some bo \<and> bo \<noteq> 0
      \<and> cacheReadsPrice info = Some bc \<and> bc \<noteq> 0
      \<and> tiers info = Some exampleTiers
    \<longrightarrow> calculateCost info 500000 outputTokens cacheReadTokens =
          JNumber (spec_cost (1 / 2) bo bc 500000 outputTokens (nullish cacheReadTokens 0)))"
proof (intro conjI impI)
  assume a: "inputPrice info = Some bi \<and> bi \<noteq> 0 \<and> outputPrice info = Some bo \<and> bo \<noteq> 0
      \<and> cacheReadsPrice info = Some bc \<and> bc \<noteq> 0
      \<and> tiers info = Some (earlier @ tier # later)
      \<and> (\<forall>u \<in> set earlier. contextWindow u < inputTokens)
      \<and> inputTokens \<le> contextWindow tier"
  then have "find (\<lambda>t. inputTokens \<le> contextWindow t) (earlier @ tier # later) = Some tier"
    by (intro find_first) auto
  with a show f: "findTier info inputTokens = Some tier"
    by (simp add: findTier_def)
  from a cost_available [of info bi bo bc inputTokens _ _ _ outputTokens cacheReadTokens,
      OF _ _ _ _ _ _ tierAdjust_found [OF f]]
  show "calculateCost info inputTokens outputTokens cacheReadTokens =
            JNumber (spec_cost
              (case tierInputPrice tier of Some p \<Rightarrow> p | None \<Rightarrow> bi)
              (case tierOutputPrice tier of Some p \<Rightarrow> p | None \<Rightarrow> bo)
              (case tierCacheReadsPrice tier of Some p \<Rightarrow> p | None \<Rightarrow> bc)
              inputTokens outputTokens (nullish cacheReadTokens 0))"
    by (simp add: nullish_def split: option.splits)
next
  assume a: "inputPrice info = Some bi \<and> bi \<noteq> 0 \<and> outputPrice info = Some bo \<and> bo \<noteq> 0
      \<and> cacheReadsPrice info = Some bc \<and> bc \<noteq> 0 \<and> tiers info = Some exampleTiers"
  then have f: "findTier info 500000 = Some (exampleTiers ! 1)"
    by (simp add: findTier_def exampleTiers_def)
  from a cost_available [of info bi bo bc 500000 _ _ _ outputTokens cacheReadTokens,
      OF _ _ _ _ _ _ tierAdjust_found [OF f]]
  show "calculateCost info 500000 outputTokens cacheReadTokens =
          JNumber (spec_cost (1 / 2) bo bc 500000 outputTokens (nullish cacheReadTokens 0))"
    by (simp add: nullish_simps exampleTiers_def)
qed

theorem calculateCost_tier_selection_witness:
  "tiers tieredModel = Some ([exampleTiers ! 0] @ (exampleTiers ! 1) # [])
   \<and> contextWindow (exampleTiers ! 0) < 500000
   \<and> 500000 \<le> contextWindow (exampleTiers ! 1)
   \<and> findTier tieredModel 500000 = Some (exampleTiers ! 1)
   \<and> tierInputPrice (exampleTiers ! 1) = Some (1 / 2)
   \<and> calculateCost tieredModel 500000 100000 None = JNumber (5 / 4)"
proof -
  have h: "tiers tieredModel = Some ([exampleTiers ! 0] @ (exampleTiers ! 1) # [])"
    "\<forall>u \<in> set [exampleTiers ! 0]. contextWindow u < 500000"
    "500000 \<le> contextWindow (exampleTiers ! 1)"
    "tierInputPrice (exampleTiers ! 1) = Some (1 / 2)"
    "tierOutputPrice (exampleTiers ! 1) = None"
    "tierCacheReadsPrice (exampleTiers ! 1) = None"
    by (simp_all add: tieredModel_simps exampleTiers_def)
  from calculateCost_tier_selection
         [of tieredModel 2 10 1 "[exampleTiers ! 0]" "exampleTiers ! 1" "[]" 500000 100000 None]
       h tieredModel_simps
  show ?thesis by (simp add: spec_cost_def nullish_simps)
qed

theorem calculateCost_tier_selection_counterexample:
  "tiers tieredFreeInputModel = Some exampleTiers
   \<and> inputPrice tieredFreeInputModel = Some 0
   \<and> findTier tieredFreeInputModel 500000 = Some (exampleTiers ! 1)
   \<and> tierInputPrice (exampleTiers ! 1) = Some (1 / 2)
   \<and> calculateCost tieredFreeInputModel 500000 100000 None = JUndefined
   \<and> tiers tieredNoInputPriceModel = Some exampleTiers
   \<and> inputPrice tieredNoInputPriceModel = None
   \<and> findTier tieredNoInputPriceModel 500000 = Some (exampleTiers ! 1)
   \<and> calculateCost tieredNoInputPriceModel 500000 100000 None = JUndefined"
  by (simp add: calculateCost_def calculateCost_locals_def Let_def falsy_simps findTier_def
        tieredFreeInputModel_def tieredNoInputPriceModel_def exampleTiers_def)

text \<open>
  Claim C8. A model that lacks \<open>inputPrice\<close>, \<open>outputPrice\<close> or \<open>cacheReadsPrice\<close> has no
  cost: \<open>calculateCost\<close> returns \<open>undefined\<close>, whatever the token counts, the other prices
  and the tiers are.
\<close>

theorem calculateCost_price_missing:
  "inputPrice info = None \<or> outputPrice info = None \<or> cacheReadsPrice info = None
   \<Longrightarrow> calculateCost info inputTokens outputTokens cacheReadTokens = JUndefined"
  by (rule cost_unavailable) (auto simp: falsy_simps)

theorem calculateCost_price_missing_witness:
  "cacheReadsPrice noCachePriceModel = None
   \<and> calculateCost noCachePriceModel 2000000 500000 (Some 1000000) = JUndefined"
proof -
  have h: "cacheReadsPrice noCachePriceModel = None" by (simp add: noCachePriceModel_def)
  from h calculateCost_price_missing [of noCachePriceModel 2000000 500000 "Some 1000000"]
  show ?thesis by simp
qed

text \<open>
  Claim C10. A base price that is present and equal to 0 makes \<open>calculateCost\<close> return
  \<open>undefined\<close>, as an absent price does; a price of 0 in the selected tier replaces a
  non-zero base price and the cost is computed with it.
\<close>

theorem calculateCost_zero_price:
  "(inputPrice info = Some 0 \<or> outputPrice info = Some 0 \<or> cacheReadsPrice info = Some 0
    \<longrightarrow> calculateCost info inputTokens outputTokens cacheReadTokens = JUndefined)
   \<and> (inputPrice info = Some bi \<and> bi \<noteq> 0 \<and> outputPrice info = Some bo \<and> bo \<noteq> 0
      \<and> cacheReadsPrice info = Some bc \<and> bc \<noteq> 0
      \<and> findTier info inputTokens = Some tier
    \<longrightarrow> (tierInputPrice tier = Some 0 \<longrightarrow>
           calculateCost info inputTokens outputTokens cacheReadTokens =
             JNumber (spec_cost 0 (nullish (tierOutputPrice tier) bo)
                        (nullish (tierCacheReadsPrice tier) bc)
                        inputTokens outputTokens (nullish cacheReadTokens 0)))
        \<and> (tierOutputPrice tier = Some 0 \<longrightarrow>
           calculateCost info inputTokens outputTokens cacheReadTokens =
             JNumber (spec_cost (nullish (tierInputPrice tier) bi) 0
                        (nullish (tierCacheReadsPrice tier) bc)
                        inputTokens outputTokens (nullish cacheReadTokens 0)))
        \<and> (tierCacheReadsPrice tier = Some 0 \<longrightarrow>
           calculateCost info inputTokens outputTokens cacheReadTokens =
             JNumber (spec_cost (nullish (tierInputPrice tier) bi)
                        (nullish (tierOutputPrice tier) bo) 0
                        inputTokens outputTokens (nullish cacheReadTokens 0))))"
proof (intro conjI impI)
  assume "inputPrice info = Some 0 \<or> outputPrice info = Some 0 \<or> cacheReadsPrice info = Some 0"
  then show "calculateCost info inputTokens outputTokens cacheReadTokens = JUndefined"
    by (intro cost_unavailable) (auto simp: falsy_simps)
next
  assume a: "inputPrice info = Some bi \<and> bi \<noteq> 0 \<and> outputPrice info = Some bo \<and> bo \<noteq> 0
      \<and> cacheReadsPrice info = Some bc \<and> bc \<noteq> 0 \<and> findTier info inputTokens = Some tier"
  then have f: "findTier info inputTokens = Some tier" by simp
  from a cost_available [of info bi bo bc inputTokens _ _ _ outputTokens cacheReadTokens,
      OF _ _ _ _ _ _ tierAdjust_found [OF f]]
  have c: "calculateCost info inputTokens outputTokens cacheReadTokens =
      JNumber (spec_cost (nullish (tierInputPrice tier) bi) (nullish (tierOutputPrice tier) bo)
                 (nullish (tierCacheReadsPrice tier) bc)
                 inputTokens outputTokens (nullish cacheReadTokens 0))"
    by simp
  { assume "tierInputPrice tier = Some 0"
    with c show "calculateCost info inputTokens outputTokens cacheReadTokens =
             JNumber (spec_cost 0 (nullish (tierOutputPrice tier) bo)
                        (nullish (tierCacheReadsPrice tier) bc)
                        inputTokens outputTokens (nullish cacheReadTokens 0))"
      by (simp add: nullish_simps) }
  { assume "tierOutputPrice tier = Some 0"
    with c show "calculateCost info inputTokens outputTokens cacheReadTokens =
             JNumber (spec_cost (nullish (tierInputPrice tier) bi) 0
                        (nullish (tierCacheReadsPrice tier) bc)
                        inputTokens outputTokens (nullish cacheReadTokens 0))"
      by (simp add: nullish_simps) }
  { assume "tierCacheReadsPrice tier = Some 0"
    with c show "calculateCost info inputTokens outputTokens cacheReadTokens =
             JNumber (spec_cost (nullish (tierInputPrice tier) bi)
                        (nullish (tierOutputPrice tier) bo) 0
                        inputTokens outputTokens (nullish cacheReadTokens 0))"
      by (simp add: nullish_simps) }
qed

theorem calculateCost_zero_price_witness:
  "inputPrice freeInputModel = Some 0
   \<and> calculateCost freeInputModel 2000000 500000 (Some 1000000) = JUndefined
   \<and> inputPrice zeroTierModel = Some 2 \<and> outputPrice zeroTierModel = Some 10
   \<and> cacheReadsPrice zeroTierModel = Some 1
   \<and> findTier zeroTierModel 2000000 = None
   \<and> calculateCost zeroTierModel 2000000 500000 (Some 1000000) = JNumber 8
   \<and> findTier zeroTierModel 500000 = Some zeroTier
   \<and> tierInputPrice zeroTier = Some 0 \<and> tierOutputPrice zeroTier = Some 0
   \<and> tierCacheReadsPrice zeroTier = Some 0
   \<and> calculateCost zeroTierModel 500000 500000 (Some 100000) = JNumber 0"
proof -
  have z: "inputPrice freeInputModel = Some 0" by (simp add: freeInputModel_def)
  have f: "findTier zeroTierModel 500000 = Some zeroTier"
    "findTier zeroTierModel 2000000 = None"
    by (simp_all add: findTier_def zeroTierModel_simps zeroTier_def)
  have t: "tierInputPrice zeroTier = Some 0" "tierOutputPrice zeroTier = Some 0"
    "tierCacheReadsPrice zeroTier = Some 0"
    by (simp_all add: zeroTier_def)
  have b: "calculateCost zeroTierModel 2000000 500000 (Some 1000000) = JNumber 8"
    using cost_available [OF zeroTierModel_simps(1) _ zeroTierModel_simps(2) _
       zeroTierModel_simps(3) _ tierAdjust_none [OF f(2)], of 500000 "Some 1000000"]
    by (simp add: spec_cost_def nullish_simps)
  from calculateCost_zero_price [of freeInputModel 2000000 500000 "Some 1000000"]
       calculateCost_zero_price [of zeroTierModel 500000 500000 "Some 100000" 2 10 1 zeroTier]
       z f t b zeroTierModel_simps
  show ?thesis by (simp add: spec_cost_def nullish_simps)
qed

section \<open>Lemmas about image generation\<close>

lemma startsWith_decompose: "startsWith s p \<Longrightarrow> s = p @ drop (length p) s"
  by (metis append_take_drop_id startsWith_def)

lemma matchAlternatives_Some:
  "matchAlternatives alts r = Some (fmt, payload) \<Longrightarrow>
   r = fmt @ '';base64,'' @ payload \<and> fmt \<in> set alts \<and> payload \<noteq> []
   \<and> list_all (\<lambda>c. \<not> lineTerminator c) payload"
proof (induction alts)
  case Nil
  then show ?case by simp
next
  case (Cons alt alts)
  show ?case
  proof (cases "startsWith r (alt @ '';base64,'') \<and> drop (length (alt @ '';base64,'')) r \<noteq> []
      \<and> list_all (\<lambda>c. \<not> lineTerminator c) (drop (length (alt @ '';base64,'')) r)")
    case True
    with Cons.prems have "fmt = alt" "payload = drop (length (alt @ '';base64,'')) r"
      by (auto simp: Let_def)
    with True startsWith_decompose [of r "alt @ '';base64,''"] show ?thesis
      by simp
  next
    case False
    with Cons.prems have "matchAlternatives alts r = Some (fmt, payload)"
      by (auto simp: Let_def split: if_splits)
    with Cons.IH show ?thesis by simp
  qed
qed

lemma matchInputImage_Some:
  "matchInputImage s = Some (fmt, payload) \<Longrightarrow>
   s = ''data:image/'' @ fmt @ '';base64,'' @ payload \<and> fmt \<in> {''png'', ''jpeg'', ''jpg''}
   \<and> payload \<noteq> [] \<and> list_all (\<lambda>c. \<not> lineTerminator c) payload"
proof -
  assume a: "matchInputImage s = Some (fmt, payload)"
  then have p: "startsWith s ''data:image/''"
    and m: "matchAlternatives [''png'', ''jpeg'', ''jpg''] (drop (length ''data:image/'') s)
             = Some (fmt, payload)"
    by (simp_all add: matchInputImage_def split: if_splits)
  from matchAlternatives_Some [OF m] startsWith_decompose [OF p]
  show ?thesis by auto
qed

lemma matchInputImage_accepts:
  assumes "fmt \<in> {''png'', ''jpeg'', ''jpg''}" "payload \<noteq> []"
      and "list_all (\<lambda>c. \<not> lineTerminator c) payload"
  shows "matchInputImage (''data:image/'' @ fmt @ '';base64,'' @ payload) = Some (fmt, payload)"
proof -
  have d: "matchInputImage (''data:image/'' @ r) = matchAlternatives [''png'', ''jpeg'', ''jpg''] r"
    for r
    by (simp add: matchInputImage_def startsWith_def)
  from assms(1) consider "fmt = ''png''" | "fmt = ''jpeg''" | "fmt = ''jpg''"
    by auto
  then have "matchAlternatives [''png'', ''jpeg'', ''jpg''] (fmt @ '';base64,'' @ payload)
      = Some (fmt, payload)"
  proof cases
    case 1
    with assms(2,3) show ?thesis by (simp add: startsWith_def)
  next
    case 2
    with assms(2,3) show ?thesis by (simp add: startsWith_def)
  next
    case 3
    with assms(2,3) show ?thesis by (simp add: startsWith_def)
  qed
  then show ?thesis
    using d [of "fmt @ '';base64,'' @ payload"] by simp
qed

lemma truthy_simps: "truthy None = False" "truthy (Some s) = (s \<noteq> [])"
  by (simp_all add: truthy_def)





lemma buildContents_absent:
  "\<not> truthy inputImage \<Longrightarrow>
   buildContents prompt inputImage =
     Some [\<lparr>role = Some ''user'', parts = Some [\<lparr>partText = Some prompt, inlineData = None\<rparr>]\<rparr>]"
  by (simp add: buildContents_def)

lemma buildContents_mismatch:
  "s \<noteq> [] \<Longrightarrow> matchInputImage s = None \<Longrightarrow> buildContents prompt (Some s) = None"
  by (simp add: buildContents_def truthy_simps)

lemma generateImage_cases:
  "generateImage this generateContent prompt modelId apiKey inputImage =
     (case buildContents prompt inputImage of
        None \<Rightarrow> (failure ''Invalid input image format. Expected base64 data URL.'', [])
      | Some cs \<Rightarrow>
          (case generateContent (selectClient this apiKey) (buildParams this modelId cs) of
             Inl e \<Rightarrow> failure (''Failed to generate image: '' @ errorMessage e)
           | Inr result \<Rightarrow> extractImage result,
           [(selectClient this apiKey, buildParams this modelId cs)]))"
  by (simp add: generateImage_def generateImage_try_def split: option.splits sum.splits)

lemma generateImage_invalid:
  "buildContents prompt inputImage = None \<Longrightarrow>
   generateImage this generateContent prompt modelId apiKey inputImage =
     (failure ''Invalid input image format. Expected base64 data URL.'', [])"
  by (simp add: generateImage_cases)

lemma generateImage_thrown:
  "buildContents prompt inputImage = Some cs \<Longrightarrow>
   generateContent (selectClient this apiKey) (buildParams this modelId cs) = Inl e \<Longrightarrow>
   generateImage this generateContent prompt modelId apiKey inputImage =
     (failure (''Failed to generate image: '' @ errorMessage e),
      [(selectClient this apiKey, buildParams this modelId cs)])"
  by (simp add: generateImage_cases)

lemma generateImage_response:
  "buildContents prompt inputImage = Some cs \<Longrightarrow>
   generateContent (selectClient this apiKey) (buildParams this modelId cs) = Inr result \<Longrightarrow>
   generateImage this generateContent prompt modelId apiKey inputImage =
     (extractImage result, [(selectClient this apiKey, buildParams this modelId cs)])"
  by (simp add: generateImage_cases)





lemma textRequest_built:
  "buildContents ''a red kite'' None = Some (contents textRequest)"
  "buildContents ''a red kite'' (Some []) = Some (contents textRequest)"
  "buildParams exampleHandler ''gemini-2.5-flash-image-preview'' (contents textRequest) = textRequest"
  "selectClient exampleHandler (Some ''key'') = ApiKeyClient ''key''"
  by (simp_all add: buildContents_def truthy_simps textRequest_def buildParams_def
        exampleHandler_def selectClient_def)

lemma matchInputImage_examples:
  "matchInputImage ''data:image/gif;base64,R0lGODlh'' = None"
  "matchInputImage [] = None"
  by (simp_all add: matchInputImage_def startsWith_def Let_def)

lemma generateImage_try_thrown:
  "fst (generateImage_try this generateContent prompt modelId apiKey inputImage) = Inl e \<Longrightarrow>
   fst (generateImage this generateContent prompt modelId apiKey inputImage) =
     failure (''Failed to generate image: '' @ errorMessage e)"
  by (cases "generateImage_try this generateContent prompt modelId apiKey inputImage")
     (simp add: generateImage_def)

lemma errorMessage_simps:
  "errorMessage (ErrorInstance m) = m" "errorMessage OtherValue = ''Unknown error occurred''"
  by (simp_all add: errorMessage_def)












section \<open>Claims about \<open>generateImage\<close>\<close>

text \<open>
  Claim C2. \<open>generateImage\<close> always returns a result: the failure for an input image
  that does not match, the failure built by \<open>catch\<close> when the provider call throws, or what
  the response yields. Whatever the \<open>try\<close> block throws is caught and reported as
  \<open>success: false\<close> with the error \<open>"Failed to generate image: "\<close> followed by the message
  of a thrown \<open>Error\<close>, or by \<open>"Unknown error occurred"\<close> for any other thrown value.
\<close>

theorem generateImage_never_throws:
  "fst (generateImage this generateContent prompt modelId apiKey inputImage) =
     (case buildContents prompt inputImage of
        None \<Rightarrow> failure ''Invalid input image format. Expected base64 data URL.''
      | Some cs \<Rightarrow>
          (case generateContent (selectClient this apiKey) (buildParams this modelId cs) of
             Inl e \<Rightarrow> failure (''Failed to generate image: '' @ errorMessage e)
           | Inr result \<Rightarrow> extractImage result))
   \<and> (fst (generateImage_try this generateContent prompt modelId apiKey inputImage) = Inl thrownValue
      \<longrightarrow> fst (generateImage this generateContent prompt modelId apiKey inputImage) =
            failure (''Failed to generate image: '' @ errorMessage thrownValue))
   \<and> (buildContents prompt inputImage = Some request
        \<and> generateContent (selectClient this apiKey) (buildParams this modelId request) = Inl thrownValue
      \<longrightarrow> generateImage this generateContent prompt modelId apiKey inputImage =
            (\<lparr>success = False, imageData = None, imageFormat = None,
               error = Some (''Failed to generate image: '' @ errorMessage thrownValue)\<rparr>,
             [(selectClient this apiKey, buildParams this modelId request)]))
   \<and> errorMessage (ErrorInstance message) = message
   \<and> errorMessage OtherValue = ''Unknown error occurred''"
proof (intro conjI impI)
  show "fst (generateImage this generateContent prompt modelId apiKey inputImage) =
     (case buildContents prompt inputImage of
        None \<Rightarrow> failure ''Invalid input image format. Expected base64 data URL.''
      | Some cs \<Rightarrow>
          (case generateContent (selectClient this apiKey) (buildParams this modelId cs) of
             Inl e \<Rightarrow> failure (''Failed to generate image: '' @ errorMessage e)
           | Inr result \<Rightarrow> extractImage result))"
    by (simp add: generateImage_cases split: option.splits)
next
  assume "fst (generateImage_try this generateContent prompt modelId apiKey inputImage) = Inl thrownValue"
  then show "fst (generateImage this generateContent prompt modelId apiKey inputImage) =
            failure (''Failed to generate image: '' @ errorMessage thrownValue)"
    by (rule generateImage_try_thrown)
next
  assume "buildContents prompt inputImage = Some request
        \<and> generateContent (selectClient this apiKey) (buildParams this modelId request) = Inl thrownValue"
  then show "generateImage this generateContent prompt modelId apiKey inputImage =
            (\<lparr>success = False, imageData = None, imageFormat = None,
               error = Some (''Failed to generate image: '' @ errorMessage thrownValue)\<rparr>,
             [(selectClient this apiKey, buildParams this modelId request)])"
    by (simp add: generateImage_thrown failure_def)
qed (simp_all add: errorMessage_simps)

theorem generateImage_never_throws_witness:
  "fst (generateImage_try exampleHandler (stubThrowing (ErrorInstance ''fetch failed''))
          ''a red kite'' ''gemini-2.5-flash-image-preview'' (Some ''key'') None)
     = Inl (ErrorInstance ''fetch failed'')
   \<and> generateImage exampleHandler (stubThrowing (ErrorInstance ''fetch failed''))
          ''a red kite'' ''gemini-2.5-flash-image-preview'' (Some ''key'') None
     = (\<lparr>success = False, imageData = None, imageFormat = None,
          error = Some ''Failed to generate image: fetch failed''\<rparr>,
        [(ApiKeyClient ''key'', textRequest)])
   \<and> generateImage exampleHandler (stubThrowing OtherValue)
          ''a red kite'' ''gemini-2.5-flash-image-preview'' (Some ''key'') None
     = (\<lparr>success = False, imageData = None, imageFormat = None,
          error = Some ''Failed to generate image: Unknown error occurred''\<rparr>,
        [(ApiKeyClient ''key'', textRequest)])"
proof -
  have t: "fst (generateImage_try exampleHandler (stubThrowing (ErrorInstance ''fetch failed''))
          ''a red kite'' ''gemini-2.5-flash-image-preview'' (Some ''key'') None)
     = Inl (ErrorInstance ''fetch failed'')"
    by (simp add: generateImage_try_def textRequest_built stubThrowing_def)
  have s: "stubThrowing e (ApiKeyClient ''key'') textRequest = Inl e" for e
    by (simp add: stubThrowing_def)
  from generateImage_never_throws
         [where this = exampleHandler and prompt = "''a red kite''" and inputImage = None
            and modelId = "''gemini-2.5-flash-image-preview''" and apiKey = "Some ''key''"
            and generateContent = "stubThrowing (ErrorInstance ''fetch failed'')"
            and request = "contents textRequest"
            and thrownValue = "ErrorInstance ''fetch failed''" and message = "''fetch failed''"]
       generateImage_never_throws
         [where this = exampleHandler and prompt = "''a red kite''" and inputImage = None
            and modelId = "''gemini-2.5-flash-image-preview''" and apiKey = "Some ''key''"
            and generateContent = "stubThrowing OtherValue"
            and request = "contents textRequest" and thrownValue = OtherValue]
       t s
  show ?thesis by (simp add: textRequest_built)
qed

text \<open>
  Claim C3, as the code has it. A non-empty input image that the pattern
  \<open>data:image/(png|jpeg|jpg);base64,<payload>\<close> does not match gives the result
  \<open>{success: false, error: "Invalid input image format. Expected base64 data URL."}\<close>,
  and the provider is not called; an empty string is handled as an absent input image.
  By \<open>matchInputImage_Some\<close> and
  \<open>matchInputImage_accepts\<close> the matcher accepts exactly the strings of that shape whose
  payload is non-empty and free of line terminators.
\<close>

theorem generateImage_rejects_input_image:
  "(inputImage = Some s \<and> s \<noteq> [] \<and> matchInputImage s = None
    \<longrightarrow> generateImage this generateContent prompt modelId apiKey inputImage =
          (\<lparr>success = False, imageData = None, imageFormat = None,
             error = Some ''Invalid input image format. Expected base64 data URL.''\<rparr>, []))
   \<and> generateImage this generateContent prompt modelId apiKey (Some [])
       = generateImage this generateContent prompt modelId apiKey None"
proof (intro conjI impI)
  assume "inputImage = Some s \<and> s \<noteq> [] \<and> matchInputImage s = None"
  then have "buildContents prompt inputImage = None"
    by (simp add: buildContents_mismatch)
  then show "generateImage this generateContent prompt modelId apiKey inputImage =
          (\<lparr>success = False, imageData = None, imageFormat = None,
             error = Some ''Invalid input image format. Expected base64 data URL.''\<rparr>, [])"
    by (simp add: generateImage_invalid failure_def)
next
  have "buildContents prompt (Some []) = buildContents prompt None"
    by (simp add: buildContents_absent truthy_simps)
  then show "generateImage this generateContent prompt modelId apiKey (Some [])
       = generateImage this generateContent prompt modelId apiKey None"
    by (simp add: generateImage_cases)
qed

theorem generateImage_rejects_input_image_witness:
  "matchInputImage ''data:image/gif;base64,R0lGODlh'' = None
   \<and> generateImage exampleHandler (stubReturning (responseWith [pngPart])) ''a red kite''
        ''gemini-2.5-flash-image-preview'' (Some ''key'') (Some ''data:image/gif;base64,R0lGODlh'')
     = (\<lparr>success = False, imageData = None, imageFormat = None,
          error = Some ''Invalid input image format. Expected base64 data URL.''\<rparr>, [])"
  using generateImage_rejects_input_image
          [where inputImage = "Some ''data:image/gif;base64,R0lGODlh''"
             and s = "''data:image/gif;base64,R0lGODlh''" and this = exampleHandler
             and generateContent = "stubReturning (responseWith [pngPart])"
             and prompt = "''a red kite''" and modelId = "''gemini-2.5-flash-image-preview''"
             and apiKey = "Some ''key''"]
        matchInputImage_examples(1)
  by simp

theorem generateImage_empty_input_image_counterexample:
  "matchInputImage [] = None
   \<and> generateImage exampleHandler (stubReturning (responseWith [pngPart])) ''a red kite''
        ''gemini-2.5-flash-image-preview'' (Some ''key'') (Some [])
     = (\<lparr>success = True, imageData = Some ''data:image/png;base64,iVBORw0KGgo='',
          imageFormat = Some ''png'', error = None\<rparr>,
        [(ApiKeyClient ''key'', textRequest)])"
proof -
  have "extractImage (responseWith [pngPart]) =
      \<lparr>success = True, imageData = Some ''data:image/png;base64,iVBORw0KGgo='',
          imageFormat = Some ''png'', error = None\<rparr>"
    by (simp add: extractImage_def responseWith_def pngPart_def startsWith_def truthy_simps
          template_def)
  then show ?thesis
    using generateImage_response [OF textRequest_built(2),
        where this = exampleHandler and modelId = "''gemini-2.5-flash-image-preview''"
          and generateContent = "stubReturning (responseWith [pngPart])"
          and apiKey = "Some ''key''" and result = "responseWith [pngPart]"]
    by (simp add: textRequest_built matchInputImage_examples stubReturning_def)
qed









end
